theory Spec2Isabelle
  imports Main "HOL-Library.Word"
begin

unbundle bit_operations_syntax

section \<open>The memory subsystem of the MIPS simulator (memory.py)\<close>

text \<open>
  A shallow embedding of \<^verbatim>\<open>memory.py\<close>. Python's unbounded integers are \<^typ>\<open>int\<close>;
  the storage array \<^verbatim>\<open>self.memory\<close> is an \<^typ>\<open>int list\<close>; the insertion-ordered
  dictionary \<^verbatim>\<open>self.data_section\<close> is an association list whose order is the
  dictionary's iteration order. Every exception of the source is a value of \<open>error\<close>,
  and a method that can raise returns \<open>error + 'a\<close> with \<open>Inl\<close> for the exception.
\<close>

subsection \<open>Data model\<close>

text \<open>\<^verbatim>\<open>@dataclass class MemoryConfig\<close>: three integer fields.\<close>

record MemoryConfig =
  base_address :: int
  size_cfg :: int
  word_size :: int

text \<open>
  The two messages with which \<^verbatim>\<open>MemoryError\<close> is raised, each carrying the offending
  address, and the built-in exceptions that the arithmetic and the list accesses of
  the source can raise.
\<close>

datatype memory_error_kind = Unaligned | OutOfBounds

datatype error =
    MemoryError memory_error_kind int
  | IndexError
  | ZeroDivisionError
  | ValueError

text \<open>\<^verbatim>\<open>class MIPSMemory\<close>: the three attributes set by \<^verbatim>\<open>__init__\<close>.\<close>

record MIPSMemory =
  config :: MemoryConfig
  memory :: "int list"
  data_section :: "(string \<times> int) list"

subsection \<open>Python primitives\<close>

text \<open>
  \<^verbatim>\<open>a % b\<close> and \<^verbatim>\<open>a // b\<close> on Python integers: floor division, the remainder has the
  sign of the divisor (as \<open>mod\<close> and \<open>div\<close> on \<^typ>\<open>int\<close>), and a zero divisor raises.
\<close>

definition py_mod :: "int \<Rightarrow> int \<Rightarrow> error + int" where
  "py_mod a b = (if b = 0 then Inl ZeroDivisionError else Inr (a mod b))"

definition py_floordiv :: "int \<Rightarrow> int \<Rightarrow> error + int" where
  "py_floordiv a b = (if b = 0 then Inl ZeroDivisionError else Inr (a div b))"

text \<open>
  \<^verbatim>\<open>xs[i]\<close>: a negative index counts from the end of the list; an index outside
  \<open>[-len, len)\<close> raises \<^verbatim>\<open>IndexError\<close>.
\<close>

definition py_getitem :: "int list \<Rightarrow> int \<Rightarrow> error + int" where
  "py_getitem xs i =
     (if 0 \<le> i \<and> i < int (length xs) then Inr (xs ! nat i)
      else if - int (length xs) \<le> i \<and> i < 0 then Inr (xs ! nat (int (length xs) + i))
      else Inl IndexError)"

text \<open>\<^verbatim>\<open>xs.index(x)\<close>: the position of the first occurrence, \<^verbatim>\<open>ValueError\<close> if there is none.\<close>

fun py_list_index :: "'a list \<Rightarrow> 'a \<Rightarrow> error + nat" where
  "py_list_index [] x = Inl ValueError"
| "py_list_index (y # ys) x =
     (if y = x then Inr 0
      else (case py_list_index ys x of Inl e \<Rightarrow> Inl e | Inr i \<Rightarrow> Inr (Suc i)))"

text \<open>
  \<^verbatim>\<open>d[k] = v\<close> on an insertion-ordered dictionary: an existing key keeps its position,
  a new key is appended.
\<close>

fun dict_setitem :: "('k \<times> 'v) list \<Rightarrow> 'k \<Rightarrow> 'v \<Rightarrow> ('k \<times> 'v) list" where
  "dict_setitem [] k v = [(k, v)]"
| "dict_setitem ((k', v') # d) k v =
     (if k' = k then (k, v) # d else (k', v') # dict_setitem d k v)"

subsection \<open>Construction\<close>

text \<open>
  \<^verbatim>\<open>__init__\<close>: \<^verbatim>\<open>MemoryConfig(base_address, size)\<close> takes the default \<^verbatim>\<open>word_size = 4\<close>;
  \<^verbatim>\<open>[0] * (size // 2)\<close> is the empty list when \<^verbatim>\<open>size // 2\<close> is not positive.
\<close>

definition init :: "int \<Rightarrow> int \<Rightarrow> MIPSMemory" where
  "init base sz =
     \<lparr> config = \<lparr> base_address = base, size_cfg = sz, word_size = 4 \<rparr>,
       memory = replicate (nat (sz div 2)) 0,
       data_section = [] \<rparr>"

subsection \<open>Address validation, word read and word write\<close>

text \<open>
  \<^verbatim>\<open>_validate_address\<close>: the alignment test is on the absolute address; the bounds error
  is raised only when the relative index is out of range and the address is not in
  \<open>[0, base_address)\<close>.
\<close>

definition validate_address :: "MIPSMemory \<Rightarrow> int \<Rightarrow> error + unit" where
  "validate_address m address =
     (case py_mod address (word_size (config m)) of
        Inl e \<Rightarrow> Inl e
      | Inr r \<Rightarrow>
          if r \<noteq> 0 then Inl (MemoryError Unaligned address)
          else
            (let relative_address = address - base_address (config m) in
             case py_floordiv relative_address (word_size (config m)) of
               Inl e \<Rightarrow> Inl e
             | Inr index \<Rightarrow>
                 if \<not> (0 \<le> index \<and> index < int (length (memory m))) then
                   (if \<not> (0 \<le> address \<and> address < base_address (config m))
                    then Inl (MemoryError OutOfBounds address)
                    else Inr ())
                 else Inr ()))"

text \<open>The body of the \<^verbatim>\<open>try\<close> block of \<^verbatim>\<open>read_word\<close>.\<close>

definition read_word_try :: "MIPSMemory \<Rightarrow> int \<Rightarrow> error + int" where
  "read_word_try m address =
     (case validate_address m address of
        Inl e \<Rightarrow> Inl e
      | Inr _ \<Rightarrow>
          (case py_floordiv (address - base_address (config m)) (word_size (config m)) of
             Inl e \<Rightarrow> Inl e
           | Inr index \<Rightarrow> py_getitem (memory m) index))"

text \<open>
  \<^verbatim>\<open>read_word\<close>: the handler catches \<^verbatim>\<open>MemoryError\<close> only, tries the absolute address
  and re-raises the caught exception otherwise. Any other exception leaves the
  \<^verbatim>\<open>try\<close> block uncaught.
\<close>

definition read_word :: "MIPSMemory \<Rightarrow> int \<Rightarrow> error + int" where
  "read_word m address =
     (case read_word_try m address of
        Inl (MemoryError k x) \<Rightarrow>
          (if 0 \<le> address \<and> address < base_address (config m) then
             (case py_floordiv address (word_size (config m)) of
                Inl e \<Rightarrow> Inl e
              | Inr index \<Rightarrow>
                  if 0 \<le> index \<and> index < int (length (memory m))
                  then py_getitem (memory m) index
                  else Inl (MemoryError k x))
           else Inl (MemoryError k x))
      | Inl e \<Rightarrow> Inl e
      | Inr v \<Rightarrow> Inr v)"

text \<open>
  \<^verbatim>\<open>write_word\<close>: the alignment test is on the address relative to \<^verbatim>\<open>base_address\<close>.
  Both assignments \<^verbatim>\<open>self.memory[index] = value & 0xFFFF\<close> are guarded by
  \<^verbatim>\<open>0 <= index < len(self.memory)\<close>, so they are plain list updates.
\<close>

definition write_word :: "MIPSMemory \<Rightarrow> int \<Rightarrow> int \<Rightarrow> error + MIPSMemory" where
  "write_word m address val =
     (let relative_address = address - base_address (config m) in
      case py_mod relative_address (word_size (config m)) of
        Inl e \<Rightarrow> Inl e
      | Inr r \<Rightarrow>
          if r \<noteq> 0 then Inl (MemoryError Unaligned address)
          else
            (case py_floordiv relative_address (word_size (config m)) of
               Inl e \<Rightarrow> Inl e
             | Inr index \<Rightarrow>
                 if 0 \<le> index \<and> index < int (length (memory m)) then
                   Inr (m\<lparr>memory := (memory m)[nat index := val AND 0xFFFF]\<rparr>)
                 else if 0 \<le> address \<and> address < base_address (config m) then
                   (case py_floordiv address (word_size (config m)) of
                      Inl e \<Rightarrow> Inl e
                    | Inr index' \<Rightarrow>
                        if 0 \<le> index' \<and> index' < int (length (memory m)) then
                          Inr (m\<lparr>memory := (memory m)[nat index' := val AND 0xFFFF]\<rparr>)
                        else Inl (MemoryError OutOfBounds address))
                 else Inl (MemoryError OutOfBounds address)))"

text \<open>\<^verbatim>\<open>is_valid_address\<close>: the same tests as \<^verbatim>\<open>write_word\<close>, answering with a boolean.\<close>

definition is_valid_address :: "MIPSMemory \<Rightarrow> int \<Rightarrow> error + bool" where
  "is_valid_address m address =
     (let relative_address = address - base_address (config m) in
      case py_mod relative_address (word_size (config m)) of
        Inl e \<Rightarrow> Inl e
      | Inr r \<Rightarrow>
          if r \<noteq> 0 then Inr False
          else
            (case py_floordiv relative_address (word_size (config m)) of
               Inl e \<Rightarrow> Inl e
             | Inr index \<Rightarrow>
                 if 0 \<le> index \<and> index < int (length (memory m)) then Inr True
                 else if 0 \<le> address \<and> address < base_address (config m) then
                   (case py_floordiv address (word_size (config m)) of
                      Inl e \<Rightarrow> Inl e
                    | Inr index' \<Rightarrow> Inr (0 \<le> index' \<and> index' < int (length (memory m))))
                 else Inr False))"

subsection \<open>Data segment\<close>

text \<open>
  The loop of \<^verbatim>\<open>allocate_data\<close> over \<^verbatim>\<open>enumerate(data_section.values())\<close>: \<open>i\<close> is the
  running index, and the assignment is guarded by \<^verbatim>\<open>i < len(self.memory)\<close>.
\<close>

fun allocate_loop :: "int list \<Rightarrow> nat \<Rightarrow> int list \<Rightarrow> int list" where
  "allocate_loop mem i [] = mem"
| "allocate_loop mem i (v # vs) =
     allocate_loop (if i < length mem then mem[i := v] else mem) (Suc i) vs"

definition allocate_data :: "MIPSMemory \<Rightarrow> (string \<times> int) list \<Rightarrow> MIPSMemory" where
  "allocate_data m ds =
     m\<lparr> data_section := ds, memory := allocate_loop (memory m) 0 (map snd ds) \<rparr>"

text \<open>
  \<^verbatim>\<open>update_data_memory\<close>: \<^verbatim>\<open>variable_index\<close> is a position in a list, hence never negative;
  the assignment to the cell is guarded by \<^verbatim>\<open>variable_index < len(self.memory)\<close>.
\<close>

definition update_data_memory :: "MIPSMemory \<Rightarrow> string \<Rightarrow> int \<Rightarrow> error + MIPSMemory" where
  "update_data_memory m var_name val =
     (if var_name \<in> set (map fst (data_section m)) then
        (case py_list_index (map fst (data_section m)) var_name of
           Inl e \<Rightarrow> Inl e
         | Inr variable_index \<Rightarrow>
             if variable_index < length (memory m) then
               Inr (m\<lparr> memory := (memory m)[variable_index := val],
                       data_section := dict_setitem (data_section m) var_name val \<rparr>)
             else Inr m)
      else Inr m)"

text \<open>\<^verbatim>\<open>get_data_memory_values\<close>: a copy of the whole storage array.\<close>

definition get_data_memory_values :: "MIPSMemory \<Rightarrow> int list" where
  "get_data_memory_values m = memory m"

section \<open>The methods as programs on the interpreter's state\<close>

text \<open>
  The functions above give what a method computes from the engine's attributes. Here
  the methods are translated statement by statement into programs that thread the
  interpreter's state: a store of list objects addressed by references, and the
  attributes of \<^verbatim>\<open>self\<close>. The attribute \<^verbatim>\<open>self.memory\<close> is a reference into the store, so
  that an assignment \<^verbatim>\<open>self.memory[i] = v\<close> updates the object behind it and the slice
  \<^verbatim>\<open>self.memory[:]\<close> creates a new object. A program returns its result or the
  exception it raises, together with the state it leaves behind; an exception does not
  undo the assignments made before it.
\<close>

subsection \<open>State and control\<close>

type_synonym ref = nat

record py_state =
  heap :: "ref \<Rightarrow> int list"
  next_ref :: ref
  self_config :: MemoryConfig
  self_memory :: ref
  self_data_section :: "(string \<times> int) list"

type_synonym 'a prog = "py_state \<Rightarrow> (error + 'a) \<times> py_state"

text \<open>\<^verbatim>\<open>return x\<close>, \<^verbatim>\<open>raise e\<close>, and the sequencing of two statements.\<close>

definition py_return :: "'a \<Rightarrow> 'a prog" where
  "py_return x s = (Inr x, s)"

definition py_raise :: "error \<Rightarrow> 'a prog" where
  "py_raise e s = (Inl e, s)"

definition py_bind :: "'a prog \<Rightarrow> ('a \<Rightarrow> 'b prog) \<Rightarrow> 'b prog" where
  "py_bind p f s = (case p s of (Inl e, s') \<Rightarrow> (Inl e, s') | (Inr x, s') \<Rightarrow> f x s')"

text \<open>
  \<^verbatim>\<open>try: p except MemoryError as e: h(e)\<close>: the handler runs in the state that the body
  left behind; any other exception passes through.
\<close>

definition try_except_MemoryError :: "'a prog \<Rightarrow> (error \<Rightarrow> 'a prog) \<Rightarrow> 'a prog" where
  "try_except_MemoryError p h s =
     (case p s of
        (Inl (MemoryError k x), s') \<Rightarrow> h (MemoryError k x) s'
      | (Inl e, s') \<Rightarrow> (Inl e, s')
      | (Inr v, s') \<Rightarrow> (Inr v, s'))"

text \<open>The value of an expression that reads no object, or the exception it raises.\<close>

definition eval_expr :: "error + 'a \<Rightarrow> 'a prog" where
  "eval_expr r s = (r, s)"

subsection \<open>Reading and writing attributes and list objects\<close>

text \<open>\<^verbatim>\<open>self.config.base_address\<close>, \<^verbatim>\<open>self.config.word_size\<close> and \<^verbatim>\<open>self.data_section\<close>.\<close>

definition get_base_address :: "int prog" where
  "get_base_address s = (Inr (base_address (self_config s)), s)"

definition get_word_size :: "int prog" where
  "get_word_size s = (Inr (word_size (self_config s)), s)"

definition get_data_section :: "(string \<times> int) list prog" where
  "get_data_section s = (Inr (self_data_section s), s)"

text \<open>\<^verbatim>\<open>len(self.memory)\<close>, \<^verbatim>\<open>self.memory[i]\<close> and \<^verbatim>\<open>self.memory[i] = v\<close>.\<close>

definition len_memory :: "nat prog" where
  "len_memory s = (Inr (length (heap s (self_memory s))), s)"

definition memory_getitem :: "int \<Rightarrow> int prog" where
  "memory_getitem i s = (py_getitem (heap s (self_memory s)) i, s)"

text \<open>
  \<^verbatim>\<open>xs[i] = v\<close> on the list object behind the reference \<open>r\<close>: a negative index counts
  from the end, an index outside \<open>[-len, len)\<close> raises \<^verbatim>\<open>IndexError\<close>.
\<close>

definition list_setitem :: "ref \<Rightarrow> int \<Rightarrow> int \<Rightarrow> unit prog" where
  "list_setitem r i v s =
     (if 0 \<le> i \<and> i < int (length (heap s r)) then
        (Inr (), s\<lparr>heap := (heap s)(r := (heap s r)[nat i := v])\<rparr>)
      else if - int (length (heap s r)) \<le> i \<and> i < 0 then
        (Inr (), s\<lparr>heap := (heap s)(r := (heap s r)[nat (int (length (heap s r)) + i) := v])\<rparr>)
      else (Inl IndexError, s))"

definition memory_setitem :: "int \<Rightarrow> int \<Rightarrow> unit prog" where
  "memory_setitem i v s = list_setitem (self_memory s) i v s"

text \<open>\<^verbatim>\<open>self.data_section = d\<close> and \<^verbatim>\<open>self.data_section[k] = v\<close>.\<close>

definition set_data_section :: "(string \<times> int) list \<Rightarrow> unit prog" where
  "set_data_section d s = (Inr (), s\<lparr>self_data_section := d\<rparr>)"

definition data_section_setitem :: "string \<Rightarrow> int \<Rightarrow> unit prog" where
  "data_section_setitem k v s =
     (Inr (), s\<lparr>self_data_section := dict_setitem (self_data_section s) k v\<rparr>)"

text \<open>
  \<^verbatim>\<open>self.memory[:]\<close>: a new list object with the same elements, at the next free
  reference.
\<close>

definition memory_slice_all :: "ref prog" where
  "memory_slice_all s =
     (Inr (next_ref s),
      s\<lparr>heap := (heap s)(next_ref s := heap s (self_memory s)), next_ref := Suc (next_ref s)\<rparr>)"

subsection \<open>The methods\<close>

text \<open>\<^verbatim>\<open>__init__\<close>: the storage array is the first object of the store.\<close>

definition init_st :: "int \<Rightarrow> int \<Rightarrow> py_state" where
  "init_st base sz =
     \<lparr> heap = (\<lambda>_. [])(0 := replicate (nat (sz div 2)) 0),
       next_ref = 1,
       self_config = \<lparr> base_address = base, size_cfg = sz, word_size = 4 \<rparr>,
       self_memory = 0,
       self_data_section = [] \<rparr>"

definition validate_address_st :: "int \<Rightarrow> unit prog" where
  "validate_address_st address =
     py_bind get_word_size (\<lambda>ws.
     py_bind (eval_expr (py_mod address ws)) (\<lambda>r.
       if r \<noteq> 0 then py_raise (MemoryError Unaligned address)
       else
         py_bind get_base_address (\<lambda>base.
         py_bind (eval_expr (py_floordiv (address - base) ws)) (\<lambda>index.
         py_bind len_memory (\<lambda>n.
           if \<not> (0 \<le> index \<and> index < int n) then
             (if \<not> (0 \<le> address \<and> address < base)
              then py_raise (MemoryError OutOfBounds address)
              else py_return ())
           else py_return ())))))"

definition read_word_st :: "int \<Rightarrow> int prog" where
  "read_word_st address =
     try_except_MemoryError
       (py_bind (validate_address_st address) (\<lambda>_.
        py_bind get_base_address (\<lambda>base.
        py_bind get_word_size (\<lambda>ws.
        py_bind (eval_expr (py_floordiv (address - base) ws)) (\<lambda>index.
        memory_getitem index)))))
       (\<lambda>e.
        py_bind get_base_address (\<lambda>base.
          if 0 \<le> address \<and> address < base then
            py_bind get_word_size (\<lambda>ws.
            py_bind (eval_expr (py_floordiv address ws)) (\<lambda>index.
            py_bind len_memory (\<lambda>n.
              if 0 \<le> index \<and> index < int n then memory_getitem index
              else py_raise e)))
          else py_raise e))"

definition write_word_st :: "int \<Rightarrow> int \<Rightarrow> unit prog" where
  "write_word_st address val =
     py_bind get_base_address (\<lambda>base.
     py_bind get_word_size (\<lambda>ws.
     py_bind (eval_expr (py_mod (address - base) ws)) (\<lambda>r.
       if r \<noteq> 0 then py_raise (MemoryError Unaligned address)
       else
         py_bind (eval_expr (py_floordiv (address - base) ws)) (\<lambda>index.
         py_bind len_memory (\<lambda>n.
           if 0 \<le> index \<and> index < int n then memory_setitem index (val AND 0xFFFF)
           else if 0 \<le> address \<and> address < base then
             py_bind (eval_expr (py_floordiv address ws)) (\<lambda>index'.
             py_bind len_memory (\<lambda>n'.
               if 0 \<le> index' \<and> index' < int n' then memory_setitem index' (val AND 0xFFFF)
               else py_raise (MemoryError OutOfBounds address)))
           else py_raise (MemoryError OutOfBounds address))))))"

definition is_valid_address_st :: "int \<Rightarrow> bool prog" where
  "is_valid_address_st address =
     py_bind get_base_address (\<lambda>base.
     py_bind get_word_size (\<lambda>ws.
     py_bind (eval_expr (py_mod (address - base) ws)) (\<lambda>r.
       if r \<noteq> 0 then py_return False
       else
         py_bind (eval_expr (py_floordiv (address - base) ws)) (\<lambda>index.
         py_bind len_memory (\<lambda>n.
           if 0 \<le> index \<and> index < int n then py_return True
           else if 0 \<le> address \<and> address < base then
             py_bind (eval_expr (py_floordiv address ws)) (\<lambda>index'.
             py_bind len_memory (\<lambda>n'.
               py_return (0 \<le> index' \<and> index' < int n')))
           else py_return False)))))"

text \<open>The loop of \<^verbatim>\<open>allocate_data\<close>, one iteration for each value.\<close>

fun allocate_loop_st :: "nat \<Rightarrow> int list \<Rightarrow> unit prog" where
  "allocate_loop_st i [] = py_return ()"
| "allocate_loop_st i (v # vs) =
     py_bind len_memory (\<lambda>n.
     py_bind (if i < n then memory_setitem (int i) v else py_return ()) (\<lambda>_.
     allocate_loop_st (Suc i) vs))"

definition allocate_data_st :: "(string \<times> int) list \<Rightarrow> unit prog" where
  "allocate_data_st d =
     py_bind (set_data_section d) (\<lambda>_. allocate_loop_st 0 (map snd d))"

definition update_data_memory_st :: "string \<Rightarrow> int \<Rightarrow> unit prog" where
  "update_data_memory_st var_name val =
     py_bind get_data_section (\<lambda>d.
       if var_name \<in> set (map fst d) then
         py_bind (eval_expr (py_list_index (map fst d) var_name)) (\<lambda>variable_index.
         py_bind len_memory (\<lambda>n.
           if variable_index < n then
             py_bind (memory_setitem (int variable_index) val) (\<lambda>_.
             data_section_setitem var_name val)
           else py_return ()))
       else py_return ())"

definition get_data_memory_values_st :: "ref prog" where
  "get_data_memory_values_st = memory_slice_all"

subsection \<open>Calls of the public methods\<close>

datatype call =
    ReadWord int
  | WriteWord int int
  | IsValidAddress int
  | AllocateData "(string \<times> int) list"
  | UpdateDataMemory string int
  | GetDataMemoryValues

text \<open>The state that a call leaves behind, whether it returns or raises.\<close>

fun state_after :: "call \<Rightarrow> py_state \<Rightarrow> py_state" where
  "state_after (ReadWord a) s = snd (read_word_st a s)"
| "state_after (WriteWord a v) s = snd (write_word_st a v s)"
| "state_after (IsValidAddress a) s = snd (is_valid_address_st a s)"
| "state_after (AllocateData d) s = snd (allocate_data_st d s)"
| "state_after (UpdateDataMemory n v) s = snd (update_data_memory_st n v s)"
| "state_after GetDataMemoryValues s = snd (get_data_memory_values_st s)"

text \<open>The content of the storage array, and the engine as the functions above see it.\<close>

definition storage :: "py_state \<Rightarrow> int list" where
  "storage s = heap s (self_memory s)"

definition engine_of :: "py_state \<Rightarrow> MIPSMemory" where
  "engine_of s =
     \<lparr> config = self_config s, memory = storage s, data_section = self_data_section s \<rparr>"

section \<open>Auxiliary facts\<close>

subsection \<open>The loading loop, list positions and dictionary assignment\<close>

lemma allocate_loop_length: "length (allocate_loop mem i vs) = length mem"
  by (induction vs arbitrary: mem i) simp_all

lemma allocate_loop_nth:
  "j < length mem \<Longrightarrow>
   allocate_loop mem i vs ! j = (if i \<le> j \<and> j < i + length vs then vs ! (j - i) else mem ! j)"
proof (induction vs arbitrary: mem i)
  case Nil
  then show ?case by simp
next
  case (Cons v vs)
  let ?mem' = "if i < length mem then mem[i := v] else mem"
  have len: "j < length ?mem'" using Cons.prems by simp
  show ?case
  proof (cases "j = i")
    case True
    then show ?thesis using Cons.IH [OF len, of "Suc i"] Cons.prems by simp
  next
    case False
    then show ?thesis using Cons.IH [OF len, of "Suc i"] Cons.prems
      by (auto simp: nth_Cons' Suc_diff_le)
  qed
qed

lemma py_list_index_first:
  "distinct xs \<Longrightarrow> r < length xs \<Longrightarrow> py_list_index xs (xs ! r) = Inr r"
proof (induction xs arbitrary: r)
  case Nil
  then show ?case by simp
next
  case (Cons y ys)
  then show ?case by (cases r) auto
qed

lemma py_list_index_present:
  "x \<in> set xs \<Longrightarrow> \<exists>i. py_list_index xs x = Inr i \<and> i < length xs \<and> xs ! i = x"
  by (induction xs) auto

lemma dict_setitem_rank:
  "distinct (map fst d) \<Longrightarrow> r < length d \<Longrightarrow>
   dict_setitem d (fst (d ! r)) v = d[r := (fst (d ! r), v)]"
proof (induction d arbitrary: r)
  case Nil
  then show ?case by simp
next
  case (Cons p d)
  obtain k' v' where p: "p = (k', v')" by (cases p)
  show ?case
  proof (cases r)
    case 0
    then show ?thesis using p by simp
  next
    case (Suc r')
    then have r': "r' < length d" using Cons.prems by simp
    moreover have "fst (d ! r') \<noteq> k'"
    proof
      assume "fst (d ! r') = k'"
      moreover have "d ! r' \<in> set d" using r' by simp
      ultimately have "k' \<in> fst ` set d" by force
      then show False using Cons.prems p by simp
    qed
    ultimately show ?thesis using Cons p Suc by simp
  qed
qed

lemma below_base_index_negative:
  "0 < w \<Longrightarrow> a < b \<Longrightarrow> (a - b) div w < (0::int)"
  by (simp add: div_neg_pos_less0)

subsection \<open>Accesses through the primary tier\<close>

text \<open>
  With a positive word size, cell \<open>i\<close> is written through the address
  \<open>base_address + i * word_size\<close>; it is read back through the same address when
  \<open>base_address\<close> is itself a multiple of the word size.
\<close>

lemma read_word_primary:
  assumes ws: "0 < word_size (config m)"
    and al: "base_address (config m) mod word_size (config m) = 0"
    and i: "i < length (memory m)"
  shows "read_word m (base_address (config m) + int i * word_size (config m)) = Inr (memory m ! i)"
proof -
  let ?w = "word_size (config m)" and ?b = "base_address (config m)"
  have m0: "(?b + int i * ?w) mod ?w = 0" using al by simp
  have d: "(?b + int i * ?w - ?b) div ?w = int i" using ws by simp
  have v: "validate_address m (?b + int i * ?w) = Inr ()"
    using ws i m0 by (simp add: validate_address_def py_mod_def py_floordiv_def)
  have t: "read_word_try m (?b + int i * ?w) = Inr (memory m ! i)"
    using ws i v by (simp add: read_word_try_def py_floordiv_def py_getitem_def)
  show ?thesis by (simp add: read_word_def t)
qed

lemma write_word_primary:
  assumes "0 < word_size (config m)" and "i < length (memory m)"
  shows "write_word m (base_address (config m) + int i * word_size (config m)) v =
           Inr (m\<lparr>memory := (memory m)[i := v AND 0xFFFF]\<rparr>)"
  using assms by (simp add: write_word_def py_mod_def py_floordiv_def)

lemma write_read_roundtrip_aligned_base:
  assumes ws: "0 < word_size (config m)"
    and al: "base_address (config m) mod word_size (config m) = 0"
    and i: "i < length (memory m)"
  shows "\<exists>m'. write_word m (base_address (config m) + int i * word_size (config m)) v = Inr m'
              \<and> read_word m' (base_address (config m) + int i * word_size (config m))
                  = Inr (v AND 0xFFFF)"
proof -
  let ?m' = "m\<lparr>memory := (memory m)[i := v AND 0xFFFF]\<rparr>"
  have "read_word ?m' (base_address (config ?m') + int i * word_size (config ?m'))
          = Inr (memory ?m' ! i)"
    by (rule read_word_primary) (use ws al i in simp_all)
  then show ?thesis using write_word_primary [OF ws i, of v] i by simp
qed

subsection \<open>Updating a variable of the data segment\<close>

lemma update_data_memory_at_rank:
  assumes "distinct (map fst (data_section m))"
    and "r < length (data_section m)" and "r < length (memory m)"
  shows "update_data_memory m (fst (data_section m ! r)) v =
           Inr (m\<lparr> memory := (memory m)[r := v],
                    data_section := (data_section m)[r := (fst (data_section m ! r), v)] \<rparr>)"
proof -
  let ?keys = "map fst (data_section m)"
  have k: "?keys ! r = fst (data_section m ! r)" using assms(2) by simp
  have mem: "fst (data_section m ! r) \<in> set ?keys"
    using assms(2) k by (metis length_map nth_mem)
  have idx: "py_list_index ?keys (fst (data_section m ! r)) = Inr r"
    using py_list_index_first [of ?keys r] assms(1,2) k by simp
  show ?thesis
    using mem idx assms(3) dict_setitem_rank [OF assms(1,2), of v]
    by (simp add: update_data_memory_def)
qed

subsection \<open>The programs compute the functions\<close>

text \<open>
  Each program returns what the function of the same name computes from the engine
  \<open>engine_of s\<close>, and leaves behind the state \<open>s\<close> with the storage array and the data
  segment of the function's result. The three reading methods leave \<open>s\<close> itself.
\<close>

lemmas prog_defs =
  py_return_def py_raise_def py_bind_def try_except_MemoryError_def eval_expr_def
  get_base_address_def get_word_size_def get_data_section_def len_memory_def
  memory_getitem_def memory_setitem_def list_setitem_def set_data_section_def
  data_section_setitem_def memory_slice_all_def

lemma validate_address_st_eq:
  "validate_address_st a s = (validate_address (engine_of s) a, s)"
  by (simp add: validate_address_st_def validate_address_def prog_defs engine_of_def storage_def
      split: sum.splits)

lemma read_word_try_st_eq:
  "py_bind (validate_address_st a) (\<lambda>_.
     py_bind get_base_address (\<lambda>base.
     py_bind get_word_size (\<lambda>ws.
     py_bind (eval_expr (py_floordiv (a - base) ws)) (\<lambda>index.
     memory_getitem index)))) s
   = (read_word_try (engine_of s) a, s)"
  by (simp add: py_bind_def [of "validate_address_st a"] validate_address_st_eq read_word_try_def)
     (simp add: prog_defs engine_of_def storage_def split: sum.splits)

lemma read_word_st_eq: "read_word_st a s = (read_word (engine_of s) a, s)"
  unfolding read_word_st_def try_except_MemoryError_def read_word_try_st_eq
  by (simp add: read_word_def prog_defs engine_of_def storage_def split: sum.splits error.splits)

lemma is_valid_address_st_eq:
  "is_valid_address_st a s = (is_valid_address (engine_of s) a, s)"
  by (auto simp: is_valid_address_st_def is_valid_address_def prog_defs engine_of_def storage_def
      Let_def split: sum.splits)

lemma write_word_st_eq:
  "write_word_st a v s =
     (case write_word (engine_of s) a v of
        Inl e \<Rightarrow> (Inl e, s)
      | Inr m' \<Rightarrow> (Inr (), s\<lparr>heap := (heap s)(self_memory s := memory m')\<rparr>))"
  by (auto simp: write_word_st_def write_word_def prog_defs engine_of_def storage_def
      Let_def split: sum.splits)

lemma allocate_loop_st_eq:
  "allocate_loop_st i vs s =
     (Inr (), s\<lparr>heap := (heap s)(self_memory s := allocate_loop (heap s (self_memory s)) i vs)\<rparr>)"
proof (induction vs arbitrary: i s)
  case Nil
  show ?case by (simp add: py_return_def)
next
  case (Cons v vs)
  let ?r = "self_memory s" and ?xs = "heap s (self_memory s)"
  show ?case
  proof (cases "i < length ?xs")
    case True
    let ?s1 = "s\<lparr>heap := (heap s)(?r := ?xs[i := v])\<rparr>"
    have "allocate_loop_st i (v # vs) s = allocate_loop_st (Suc i) vs ?s1"
      using True
      by (simp add: py_bind_def len_memory_def memory_setitem_def list_setitem_def)
    also have "\<dots> = (Inr (), ?s1\<lparr>heap := (heap ?s1)(self_memory ?s1 :=
                          allocate_loop (heap ?s1 (self_memory ?s1)) (Suc i) vs)\<rparr>)"
      by (rule Cons.IH)
    also have "\<dots> = (Inr (), s\<lparr>heap := (heap s)(?r := allocate_loop ?xs i (v # vs))\<rparr>)"
      using True by simp
    finally show ?thesis .
  next
    case False
    have "allocate_loop_st i (v # vs) s = allocate_loop_st (Suc i) vs s"
      using False by (simp add: py_bind_def len_memory_def py_return_def)
    also have "\<dots> = (Inr (), s\<lparr>heap := (heap s)(?r := allocate_loop ?xs (Suc i) vs)\<rparr>)"
      by (rule Cons.IH)
    also have "\<dots> = (Inr (), s\<lparr>heap := (heap s)(?r := allocate_loop ?xs i (v # vs))\<rparr>)"
      using False by simp
    finally show ?thesis .
  qed
qed

lemma allocate_data_st_eq:
  "allocate_data_st d s =
     (Inr (), s\<lparr>self_data_section := d,
                heap := (heap s)(self_memory s := memory (allocate_data (engine_of s) d))\<rparr>)"
  by (simp add: allocate_data_st_def allocate_data_def py_bind_def set_data_section_def
      allocate_loop_st_eq engine_of_def storage_def)

lemma update_data_memory_st_eq:
  "update_data_memory_st n v s =
     (case update_data_memory (engine_of s) n v of
        Inl e \<Rightarrow> (Inl e, s)
      | Inr m' \<Rightarrow> (Inr (), s\<lparr>heap := (heap s)(self_memory s := memory m'),
                              self_data_section := data_section m'\<rparr>))"
  by (simp add: update_data_memory_st_def update_data_memory_def prog_defs engine_of_def
      storage_def split: sum.splits)

text \<open>
  The slice of \<^verbatim>\<open>get_data_memory_values\<close> allocates one object and leaves the storage
  array as it was; every call keeps the storage array among the allocated objects.
\<close>

lemma get_data_memory_values_st_eq:
  "get_data_memory_values_st s =
     (Inr (next_ref s),
      s\<lparr>heap := (heap s)(next_ref s := get_data_memory_values (engine_of s)),
        next_ref := Suc (next_ref s)\<rparr>)"
  by (simp add: get_data_memory_values_st_def memory_slice_all_def get_data_memory_values_def
      engine_of_def storage_def)

lemma storage_after_slice:
  "storage (snd (get_data_memory_values_st s)) = storage s"
  by (simp add: get_data_memory_values_st_eq get_data_memory_values_def engine_of_def storage_def)

lemma state_after_allocated:
  "self_memory s < next_ref s \<Longrightarrow>
   self_memory (state_after c s) < next_ref (state_after c s)"
  by (cases c)
     (simp_all add: read_word_st_eq write_word_st_eq is_valid_address_st_eq allocate_data_st_eq
        update_data_memory_st_eq get_data_memory_values_st_eq split: sum.split)

section \<open>The claims of the specification\<close>

subsection \<open>C1: the secondary tier\<close>

text \<open>
  C1 as stated fails. In the engine \<^verbatim>\<open>MIPSMemory(6, 2)\<close> (one cell) the address \<open>0\<close> is
  non-negative, below the base address, a multiple of the word size, and \<open>0 / 4 = 0\<close> is a
  cell index. Yet \<^verbatim>\<open>read_word(0)\<close> raises \<^verbatim>\<open>IndexError\<close> (it indexes the array at
  \<open>(0 - 6) // 4 = -2\<close>), and \<^verbatim>\<open>write_word(0, 7)\<close> raises \<^verbatim>\<open>MemoryError\<close>, because its
  alignment test is on \<open>0 - 6\<close>.
\<close>

theorem secondary_tier_counterexample:
  "0 \<le> (0::int) \<and> 0 < base_address (config (init 6 2))
   \<and> 0 mod word_size (config (init 6 2)) = 0
   \<and> 0 \<le> 0 div word_size (config (init 6 2))
   \<and> 0 div word_size (config (init 6 2)) < int (length (memory (init 6 2)))
   \<and> read_word (init 6 2) 0 = Inl IndexError
   \<and> write_word (init 6 2) 0 7 = Inl (MemoryError Unaligned 0)"
  by (simp add: init_def read_word_def read_word_try_def validate_address_def write_word_def
      py_mod_def py_floordiv_def py_getitem_def)

text \<open>
  C1, amended: for every address \<open>a\<close> with \<open>0 \<le> a < base_address\<close>, whose offset
  \<open>a - base_address\<close> is a multiple of \<open>word_size\<close> and with \<open>a / word_size < cell_count\<close>,
  \<^verbatim>\<open>write_word(a, v)\<close> raises nothing and stores \<open>v & 0xFFFF\<close> into cell \<open>a / word_size\<close>,
  leaving every other cell, the configuration and the data segment as they were.
\<close>

theorem write_word_secondary_tier:
  assumes "0 < word_size (config m)"
    and "0 \<le> a" and "a < base_address (config m)"
    and "(a - base_address (config m)) mod word_size (config m) = 0"
    and "a div word_size (config m) < int (length (memory m))"
  shows "write_word m a v =
           Inr (m\<lparr>memory := (memory m)[nat (a div word_size (config m)) := v AND 0xFFFF]\<rparr>)"
proof -
  have neg: "(a - base_address (config m)) div word_size (config m) < 0"
    using assms(1,3) by (rule below_base_index_negative)
  have nonneg: "0 \<le> a div word_size (config m)"
    using assms(1,2) by (simp add: pos_imp_zdiv_nonneg_iff)
  show ?thesis
    using assms neg nonneg by (simp add: write_word_def py_mod_def py_floordiv_def)
qed

text \<open>
  The amended C1 at \<^verbatim>\<open>MIPSMemory(8, 8)\<close>: \<^verbatim>\<open>write_word(4, 0x12345)\<close> stores \<open>0x2345\<close> into
  cell \<open>1\<close>.
\<close>

theorem write_word_secondary_tier_witness:
  "write_word (init 8 8) 4 0x12345 = Inr ((init 8 8)\<lparr>memory := [0, 0x2345, 0, 0]\<rparr>)"
  using write_word_secondary_tier [of "init 8 8" 4 "0x12345"]
  by (simp add: init_def eval_nat_numeral)

subsection \<open>C2: reading below the base address\<close>

text \<open>
  C2: for every address \<open>a\<close> with \<open>0 \<le> a < base_address\<close> and \<open>a mod word_size = 0\<close>,
  \<^verbatim>\<open>_validate_address\<close> accepts \<open>a\<close>, the \<^verbatim>\<open>try\<close> block of \<^verbatim>\<open>read_word\<close> raises no
  \<^verbatim>\<open>MemoryError\<close> (so the handler with the secondary tier is not entered), and
  \<^verbatim>\<open>read_word(a)\<close> indexes the array at the negative index
  \<open>(a - base_address) / word_size\<close>: it returns cell
  \<open>cell_count + (a - base_address) / word_size\<close> when that is a valid index and raises
  \<^verbatim>\<open>IndexError\<close> otherwise.
\<close>

theorem read_word_below_base:
  assumes "0 < word_size (config m)"
    and "0 \<le> a" and "a < base_address (config m)"
    and "a mod word_size (config m) = 0"
  shows "validate_address m a = Inr ()
       \<and> (\<forall>k x. read_word_try m a \<noteq> Inl (MemoryError k x))
       \<and> read_word m a =
           (if 0 \<le> int (length (memory m)) + (a - base_address (config m)) div word_size (config m)
            then Inr (memory m ! nat (int (length (memory m))
                                     + (a - base_address (config m)) div word_size (config m)))
            else Inl IndexError)"
proof -
  have neg: "(a - base_address (config m)) div word_size (config m) < 0"
    using assms(1,3) by (rule below_base_index_negative)
  have v: "validate_address m a = Inr ()"
    using assms neg by (simp add: validate_address_def py_mod_def py_floordiv_def)
  have t: "read_word_try m a =
           (if 0 \<le> int (length (memory m)) + (a - base_address (config m)) div word_size (config m)
            then Inr (memory m ! nat (int (length (memory m))
                                     + (a - base_address (config m)) div word_size (config m)))
            else Inl IndexError)"
    using assms(1) neg v by (simp add: read_word_try_def py_floordiv_def py_getitem_def)
  show ?thesis using v t by (simp add: read_word_def)
qed

text \<open>
  C2 at two engines: with base address \<open>8\<close> and cells \<open>[10, 20, 30, 40]\<close>,
  \<^verbatim>\<open>read_word(0)\<close> returns cell \<open>4 - 2 = 2\<close>; in \<^verbatim>\<open>MIPSMemory(100, 8)\<close> the index
  \<open>-25\<close> is out of range and \<^verbatim>\<open>read_word(0)\<close> raises \<^verbatim>\<open>IndexError\<close>.
\<close>

theorem read_word_below_base_witness:
  "read_word \<lparr> config = \<lparr> base_address = 8, size_cfg = 8, word_size = 4 \<rparr>,
               memory = [10, 20, 30, 40], data_section = [] \<rparr> 0 = Inr 30
   \<and> read_word (init 100 8) 0 = Inl IndexError"
  using read_word_below_base [of "\<lparr> config = \<lparr> base_address = 8, size_cfg = 8, word_size = 4 \<rparr>,
               memory = [10, 20, 30, 40], data_section = [] \<rparr>" 0]
    read_word_below_base [of "init 100 8" 0]
  by (simp add: init_def)

subsection \<open>C3: reading back a written word\<close>

text \<open>
  C3 at \<^verbatim>\<open>MIPSMemory(2, 16)\<close>, whose base address is not a multiple of the word size:
  the address \<open>2\<close> has offset \<open>0\<close> from the base and index \<open>0\<close>, \<^verbatim>\<open>write_word(2, 5)\<close>
  stores \<open>5\<close> into cell \<open>0\<close>, and the following \<^verbatim>\<open>read_word(2)\<close> raises \<^verbatim>\<open>MemoryError\<close>
  (unaligned access) instead of returning \<open>5\<close>: \<^verbatim>\<open>_validate_address\<close> tests the
  alignment of the absolute address. Lemma \<open>write_read_roundtrip_aligned_base\<close> is the
  round trip for base addresses that are multiples of the word size.
\<close>

theorem write_then_read_unaligned_base:
  "(2 - base_address (config (init 2 16))) mod word_size (config (init 2 16)) = 0
   \<and> 0 \<le> (2 - base_address (config (init 2 16))) div word_size (config (init 2 16))
   \<and> (2 - base_address (config (init 2 16))) div word_size (config (init 2 16))
        < int (length (memory (init 2 16)))
   \<and> write_word (init 2 16) 2 5 = Inr ((init 2 16)\<lparr>memory := [5, 0, 0, 0, 0, 0, 0, 0]\<rparr>)
   \<and> read_word ((init 2 16)\<lparr>memory := [5, 0, 0, 0, 0, 0, 0, 0]\<rparr>) 2
        = Inl (MemoryError Unaligned 2)"
  by (simp add: init_def read_word_def read_word_try_def validate_address_def write_word_def
      py_mod_def py_floordiv_def py_getitem_def eval_nat_numeral)

subsection \<open>C4: the reference point of the alignment test\<close>

text \<open>
  C4 at \<^verbatim>\<open>MIPSMemory(6, 16)\<close> and the address \<open>10\<close>, whose offset \<open>4\<close> from the base is
  a multiple of the word size while the base is not: \<^verbatim>\<open>_validate_address(10)\<close> and hence
  \<^verbatim>\<open>read_word(10)\<close> raise \<^verbatim>\<open>MemoryError\<close> (unaligned access), whereas
  \<^verbatim>\<open>is_valid_address(10)\<close> answers true and \<^verbatim>\<open>write_word(10, 1)\<close> succeeds. The alignment
  test of \<^verbatim>\<open>read_word\<close> is on the absolute address, that of its two siblings on the
  offset from the base.
\<close>

theorem read_word_alignment_absolute:
  "(10 - base_address (config (init 6 16))) mod word_size (config (init 6 16)) = 0
   \<and> base_address (config (init 6 16)) mod word_size (config (init 6 16)) \<noteq> 0
   \<and> validate_address (init 6 16) 10 = Inl (MemoryError Unaligned 10)
   \<and> read_word (init 6 16) 10 = Inl (MemoryError Unaligned 10)
   \<and> is_valid_address (init 6 16) 10 = Inr True
   \<and> (\<exists>m'. write_word (init 6 16) 10 1 = Inr m')"
  by (simp add: init_def read_word_def read_word_try_def validate_address_def write_word_def
      is_valid_address_def py_mod_def py_floordiv_def py_getitem_def eval_nat_numeral)

subsection \<open>C5: the non-raising probe\<close>

text \<open>
  C5 as stated fails. In \<^verbatim>\<open>MIPSMemory(6, 8)\<close> the address \<open>4\<close> passes the secondary
  check (\<open>0 \<le> 4 < 6\<close>, \<open>4 mod 4 = 0\<close>, index \<open>1\<close> of \<open>4\<close> cells), but
  \<^verbatim>\<open>is_valid_address(4)\<close> answers false: the offset \<open>4 - 6\<close> is not a multiple of
  the word size, and that test comes before both tiers.
\<close>

theorem is_valid_address_counterexample:
  "0 \<le> (4::int) \<and> 4 < base_address (config (init 6 8))
   \<and> 4 mod word_size (config (init 6 8)) = 0
   \<and> 0 \<le> 4 div word_size (config (init 6 8))
   \<and> 4 div word_size (config (init 6 8)) < int (length (memory (init 6 8)))
   \<and> is_valid_address (init 6 8) 4 = Inr False"
  by (simp add: init_def is_valid_address_def py_mod_def py_floordiv_def)

text \<open>
  C5, amended: with a non-zero word size \<^verbatim>\<open>is_valid_address(a)\<close> raises nothing, and it
  answers true if and only if \<open>(a - base_address) mod word_size = 0\<close> and either
  \<open>0 \<le> (a - base_address) / word_size < cell_count\<close>, or \<open>0 \<le> a < base_address\<close> and
  \<open>0 \<le> a / word_size < cell_count\<close>; the alignment of both tiers is tested on the offset
  from the base address, and every failure is the answer false.
\<close>

theorem is_valid_address_iff:
  "word_size (config m) \<noteq> 0 \<Longrightarrow>
   is_valid_address m a =
     Inr ((a - base_address (config m)) mod word_size (config m) = 0
          \<and> ((0 \<le> (a - base_address (config m)) div word_size (config m)
               \<and> (a - base_address (config m)) div word_size (config m) < int (length (memory m)))
             \<or> (0 \<le> a \<and> a < base_address (config m)
                 \<and> 0 \<le> a div word_size (config m)
                 \<and> a div word_size (config m) < int (length (memory m)))))"
  by (auto simp: is_valid_address_def py_mod_def py_floordiv_def Let_def)

text \<open>
  The amended C5 at \<^verbatim>\<open>MIPSMemory(8, 8)\<close>: \<open>12\<close> is valid through the primary tier, \<open>4\<close>
  through the secondary tier, \<open>13\<close> is misaligned and \<open>24\<close> is out of range.
\<close>

theorem is_valid_address_iff_witness:
  "word_size (config (init 8 8)) \<noteq> 0
   \<and> is_valid_address (init 8 8) 12 = Inr True
   \<and> is_valid_address (init 8 8) 4 = Inr True
   \<and> is_valid_address (init 8 8) 13 = Inr False
   \<and> is_valid_address (init 8 8) 24 = Inr False"
  using is_valid_address_iff [of "init 8 8" 12] is_valid_address_iff [of "init 8 8" 4]
    is_valid_address_iff [of "init 8 8" 13] is_valid_address_iff [of "init 8 8" 24]
  by (simp add: init_def)

subsection \<open>C6: truncation to 16 bits\<close>

text \<open>
  C6 at \<^verbatim>\<open>MIPSMemory(8, 8)\<close> and the address \<open>0\<close>, which both operations accept:
  \<^verbatim>\<open>write_word(0, 0x1FFFF)\<close> stores \<open>0xFFFF\<close> into cell \<open>0\<close> through the secondary tier,
  and the following \<^verbatim>\<open>read_word(0)\<close> returns \<open>0\<close>, the content of cell \<open>2\<close>, not
  \<open>0xFFFF\<close>.
\<close>

theorem truncated_write_read_back_secondary:
  "write_word (init 8 8) 0 0x1FFFF = Inr ((init 8 8)\<lparr>memory := [0xFFFF, 0, 0, 0]\<rparr>)
   \<and> read_word ((init 8 8)\<lparr>memory := [0xFFFF, 0, 0, 0]\<rparr>) 0 = Inr 0"
  by (simp add: init_def read_word_def read_word_try_def validate_address_def write_word_def
      py_mod_def py_floordiv_def py_getitem_def eval_nat_numeral)

subsection \<open>C7: loading the data segment\<close>

text \<open>
  C7: \<^verbatim>\<open>allocate_data(mapping)\<close> replaces the stored data segment by \<open>mapping\<close>, keeps
  the configuration and the number of cells, and every cell \<open>i\<close> holds afterwards the
  value of the entry of rank \<open>i\<close> if there is one and its old content otherwise; entries
  of rank \<open>cell_count\<close> or more are written nowhere. The cells after the call do not
  depend on the configuration, hence not on \<open>base_address\<close>.
\<close>

theorem allocate_data_positional:
  "data_section (allocate_data m ds) = ds
   \<and> config (allocate_data m ds) = config m
   \<and> length (memory (allocate_data m ds)) = length (memory m)
   \<and> (\<forall>i < length (memory m).
         memory (allocate_data m ds) ! i = (if i < length ds then snd (ds ! i) else memory m ! i))
   \<and> memory (allocate_data (m\<lparr>config := c\<rparr>) ds) = memory (allocate_data m ds)"
  by (simp add: allocate_data_def allocate_loop_length allocate_loop_nth)

text \<open>
  C7 at \<^verbatim>\<open>MIPSMemory(0x400000, 16)\<close>: \<^verbatim>\<open>allocate_data({"x": 1, "y": 2, "z": 3})\<close> puts
  \<open>1, 2, 3\<close> into the cells \<open>0, 1, 2\<close>.
\<close>

theorem allocate_data_positional_witness:
  "memory (allocate_data (init 4194304 16) [(''x'', 1), (''y'', 2), (''z'', 3)])
     = [1, 2, 3, 0, 0, 0, 0, 0]"
proof -
  let ?m = "init 4194304 16" and ?ds = "[(''x'', 1), (''y'', 2), (''z'', 3 :: int)]"
  have len: "length (memory ?m) = 8" by (simp add: init_def)
  have "length (memory (allocate_data ?m ?ds)) = 8"
    and "\<forall>i < 8. memory (allocate_data ?m ?ds) ! i
                 = (if i < length ?ds then snd (?ds ! i) else memory ?m ! i)"
    using allocate_data_positional [of ?m ?ds] len by simp_all
  then show ?thesis
    by (simp add: list_eq_iff_nth_eq init_def All_less_Suc2 eval_nat_numeral nth_Cons')
qed

subsection \<open>C8: updating a variable\<close>

text \<open>
  C8: \<^verbatim>\<open>update_data_memory(name, value)\<close> raises nothing and changes nothing when \<open>name\<close>
  is not a key of the data segment; when \<open>name\<close> is the key of rank \<open>r\<close> and \<open>r\<close> is a
  cell index, it raises nothing, overwrites exactly cell \<open>r\<close> with \<open>value\<close> and sets the
  entry of \<open>name\<close> to \<open>value\<close>, in place.
\<close>

theorem update_data_memory_spec:
  "(var_name \<notin> fst ` set (data_section m) \<longrightarrow> update_data_memory m var_name v = Inr m)
   \<and> (distinct (map fst (data_section m)) \<and> r < length (data_section m)
        \<and> fst (data_section m ! r) = var_name \<and> r < length (memory m) \<longrightarrow>
        update_data_memory m var_name v =
          Inr (m\<lparr> memory := (memory m)[r := v],
                   data_section := (data_section m)[r := (var_name, v)] \<rparr>))"
proof (intro conjI impI)
  assume "var_name \<notin> fst ` set (data_section m)"
  then show "update_data_memory m var_name v = Inr m"
    by (simp add: update_data_memory_def)
next
  assume a: "distinct (map fst (data_section m)) \<and> r < length (data_section m)
        \<and> fst (data_section m ! r) = var_name \<and> r < length (memory m)"
  then show "update_data_memory m var_name v =
          Inr (m\<lparr> memory := (memory m)[r := v],
                   data_section := (data_section m)[r := (var_name, v)] \<rparr>)"
    using update_data_memory_at_rank [of m r v] by auto
qed

text \<open>
  C8 after loading \<^verbatim>\<open>{"x": 1, "y": 2, "z": 3}\<close>: \<^verbatim>\<open>update_data_memory("y", 99)\<close> changes
  cell \<open>1\<close> only, and \<^verbatim>\<open>update_data_memory("q", 1)\<close> changes nothing.
\<close>

theorem update_data_memory_spec_witness:
  "update_data_memory
     \<lparr> config = \<lparr> base_address = 0, size_cfg = 8, word_size = 4 \<rparr>,
       memory = [1, 2, 3, 0], data_section = [(''x'', 1), (''y'', 2), (''z'', 3)] \<rparr> ''y'' 99
     = Inr \<lparr> config = \<lparr> base_address = 0, size_cfg = 8, word_size = 4 \<rparr>,
             memory = [1, 99, 3, 0], data_section = [(''x'', 1), (''y'', 99), (''z'', 3)] \<rparr>
   \<and> update_data_memory
     \<lparr> config = \<lparr> base_address = 0, size_cfg = 8, word_size = 4 \<rparr>,
       memory = [1, 2, 3, 0], data_section = [(''x'', 1), (''y'', 2), (''z'', 3)] \<rparr> ''q'' 1
     = Inr \<lparr> config = \<lparr> base_address = 0, size_cfg = 8, word_size = 4 \<rparr>,
             memory = [1, 2, 3, 0], data_section = [(''x'', 1), (''y'', 2), (''z'', 3)] \<rparr>"
  using update_data_memory_spec
      [of "''y''" "\<lparr> config = \<lparr> base_address = 0, size_cfg = 8, word_size = 4 \<rparr>,
       memory = [1, 2, 3, 0], data_section = [(''x'', 1), (''y'', 2), (''z'', 3)] \<rparr>" 99 1]
    update_data_memory_spec
      [of "''q''" "\<lparr> config = \<lparr> base_address = 0, size_cfg = 8, word_size = 4 \<rparr>,
       memory = [1, 2, 3, 0], data_section = [(''x'', 1), (''y'', 2), (''z'', 3)] \<rparr>" 1 0]
  by simp

subsection \<open>C9: which operations change the storage array\<close>

text \<open>
  C9: a call of \<^verbatim>\<open>read_word\<close>, whether it returns or raises, leaves the whole state as it
  was: the store, hence the storage array, and the data segment. A call after which the
  content of the storage array differs is a call of \<^verbatim>\<open>write_word\<close>, \<^verbatim>\<open>allocate_data\<close> or
  \<^verbatim>\<open>update_data_memory\<close>. In particular \<^verbatim>\<open>get_data_memory_values\<close> does not change it:
  the list it returns is a new object with the content of the storage array, and an
  assignment to an element of that list leaves the storage array as it was.
\<close>

theorem read_word_no_side_effects:
  "snd (read_word_st a s) = s
   \<and> (storage (state_after c s) \<noteq> storage s \<longrightarrow>
        (\<exists>a' v. c = WriteWord a' v) \<or> (\<exists>d. c = AllocateData d)
        \<or> (\<exists>n v. c = UpdateDataMemory n v))
   \<and> (self_memory s < next_ref s \<longrightarrow>
        (\<exists>r s'. get_data_memory_values_st s = (Inr r, s')
            \<and> r \<noteq> self_memory s' \<and> heap s' r = storage s \<and> storage s' = storage s
            \<and> (\<forall>i v. storage (snd (list_setitem r i v s')) = storage s)))"
proof (intro conjI impI)
  show "snd (read_word_st a s) = s" by (simp add: read_word_st_eq)
next
  assume changed: "storage (state_after c s) \<noteq> storage s"
  show "(\<exists>a' v. c = WriteWord a' v) \<or> (\<exists>d. c = AllocateData d)
        \<or> (\<exists>n v. c = UpdateDataMemory n v)"
  proof (cases c)
    case (ReadWord a')
    then show ?thesis using changed by (simp add: read_word_st_eq)
  next
    case (IsValidAddress a')
    then show ?thesis using changed by (simp add: is_valid_address_st_eq)
  next
    case GetDataMemoryValues
    then show ?thesis using changed by (simp add: storage_after_slice)
  qed simp_all
next
  assume fresh: "self_memory s < next_ref s"
  let ?r = "next_ref s"
  let ?s' = "s\<lparr>heap := (heap s)(next_ref s := get_data_memory_values (engine_of s)),
               next_ref := Suc (next_ref s)\<rparr>"
  have "get_data_memory_values_st s = (Inr ?r, ?s')" by (rule get_data_memory_values_st_eq)
  moreover have "?r \<noteq> self_memory ?s'" using fresh by simp
  moreover have "heap ?s' ?r = storage s"
    by (simp add: get_data_memory_values_def engine_of_def)
  moreover have "storage ?s' = storage s"
    using fresh by (simp add: storage_def)
  moreover have "\<forall>i v. storage (snd (list_setitem ?r i v ?s')) = storage s"
    using fresh by (simp add: storage_def list_setitem_def)
  ultimately show "\<exists>r s'. get_data_memory_values_st s = (Inr r, s')
            \<and> r \<noteq> self_memory s' \<and> heap s' r = storage s \<and> storage s' = storage s
            \<and> (\<forall>i v. storage (snd (list_setitem r i v s')) = storage s)"
    by blast
qed

text \<open>
  C9 at \<^verbatim>\<open>MIPSMemory(0, 4)\<close>: \<^verbatim>\<open>write_word(0, 5)\<close> changes the storage array,
  \<^verbatim>\<open>read_word(0)\<close> leaves the state as it was, and the list returned by
  \<^verbatim>\<open>get_data_memory_values()\<close> is a separate object.
\<close>

theorem read_word_no_side_effects_witness:
  "storage (state_after (WriteWord 0 5) (init_st 0 4)) \<noteq> storage (init_st 0 4)
   \<and> self_memory (init_st 0 4) < next_ref (init_st 0 4)
   \<and> snd (read_word_st 0 (init_st 0 4)) = init_st 0 4
   \<and> ((\<exists>a' v. WriteWord 0 5 = WriteWord a' v) \<or> (\<exists>d. WriteWord 0 5 = AllocateData d)
        \<or> (\<exists>n v. WriteWord 0 5 = UpdateDataMemory n v))
   \<and> (\<exists>r s'. get_data_memory_values_st (init_st 0 4) = (Inr r, s')
          \<and> r \<noteq> self_memory s' \<and> heap s' r = storage (init_st 0 4)
          \<and> storage s' = storage (init_st 0 4)
          \<and> (\<forall>i v. storage (snd (list_setitem r i v s')) = storage (init_st 0 4)))"
proof -
  have changed: "storage (state_after (WriteWord 0 5) (init_st 0 4)) \<noteq> storage (init_st 0 4)"
    by (simp add: write_word_st_def py_bind_def get_base_address_def get_word_size_def
        eval_expr_def py_mod_def py_floordiv_def len_memory_def memory_setitem_def
        list_setitem_def storage_def init_st_def eval_nat_numeral)
  have fresh: "self_memory (init_st 0 4) < next_ref (init_st 0 4)"
    by (simp add: init_st_def)
  show ?thesis
    using read_word_no_side_effects [of 0 "init_st 0 4" "WriteWord 0 5"] changed fresh
    by simp
qed

subsection \<open>C10: the data segment is stored unmasked\<close>

text \<open>
  C10: after \<^verbatim>\<open>allocate_data(mapping)\<close> every cell \<open>i\<close> below the number of entries
  holds the value of the entry of rank \<open>i\<close> as it is, and after
  \<^verbatim>\<open>update_data_memory(name, v)\<close> the cell of \<open>name\<close> holds \<open>v\<close> as it is; no mask is
  applied. \<^verbatim>\<open>get_data_memory_values\<close> shows that value, and so does \<^verbatim>\<open>read_word\<close> at
  the cell's primary address when the word size is positive and divides the base
  address.
\<close>

theorem data_segment_values_unmasked:
  "(i < length ds \<and> i < length (memory m) \<longrightarrow>
      get_data_memory_values (allocate_data m ds) ! i = snd (ds ! i)
      \<and> (0 < word_size (config m) \<and> base_address (config m) mod word_size (config m) = 0 \<longrightarrow>
           read_word (allocate_data m ds) (base_address (config m) + int i * word_size (config m))
             = Inr (snd (ds ! i))))
   \<and> (distinct (map fst (data_section m)) \<and> r < length (data_section m) \<and> r < length (memory m) \<longrightarrow>
        (\<exists>m'. update_data_memory m (fst (data_section m ! r)) v = Inr m'
            \<and> get_data_memory_values m' ! r = v
            \<and> (0 < word_size (config m) \<and> base_address (config m) mod word_size (config m) = 0 \<longrightarrow>
                  read_word m' (base_address (config m) + int r * word_size (config m)) = Inr v)))"
proof (intro conjI impI)
  assume a: "i < length ds \<and> i < length (memory m)"
  then show g: "get_data_memory_values (allocate_data m ds) ! i = snd (ds ! i)"
    by (simp add: get_data_memory_values_def allocate_data_def allocate_loop_nth)
  assume b: "0 < word_size (config m) \<and> base_address (config m) mod word_size (config m) = 0"
  have c: "config (allocate_data m ds) = config m" by (simp add: allocate_data_def)
  have l: "i < length (memory (allocate_data m ds))"
    using a by (simp add: allocate_data_def allocate_loop_length)
  show "read_word (allocate_data m ds) (base_address (config m) + int i * word_size (config m))
             = Inr (snd (ds ! i))"
    using read_word_primary [of "allocate_data m ds" i] b c l g
    by (simp add: get_data_memory_values_def)
next
  assume a: "distinct (map fst (data_section m)) \<and> r < length (data_section m) \<and> r < length (memory m)"
  let ?m' = "m\<lparr> memory := (memory m)[r := v],
                data_section := (data_section m)[r := (fst (data_section m ! r), v)] \<rparr>"
  have u: "update_data_memory m (fst (data_section m ! r)) v = Inr ?m'"
    using a update_data_memory_at_rank [of m r v] by simp
  have g: "get_data_memory_values ?m' ! r = v"
    using a by (simp add: get_data_memory_values_def)
  have rd: "0 < word_size (config m) \<and> base_address (config m) mod word_size (config m) = 0 \<longrightarrow>
            read_word ?m' (base_address (config m) + int r * word_size (config m)) = Inr v"
  proof
    assume b: "0 < word_size (config m) \<and> base_address (config m) mod word_size (config m) = 0"
    show "read_word ?m' (base_address (config m) + int r * word_size (config m)) = Inr v"
      using read_word_primary [of ?m' r] a b by simp
  qed
  show "\<exists>m'. update_data_memory m (fst (data_section m ! r)) v = Inr m'
            \<and> get_data_memory_values m' ! r = v
            \<and> (0 < word_size (config m) \<and> base_address (config m) mod word_size (config m) = 0 \<longrightarrow>
                  read_word m' (base_address (config m) + int r * word_size (config m)) = Inr v)"
    using u g rd by blast
qed

text \<open>
  C10 at \<^verbatim>\<open>MIPSMemory(8, 8)\<close>: the values \<open>70000\<close>, \<open>-1\<close> and \<open>131071\<close>, all outside
  \<open>[0, 0xFFFF]\<close>, are stored and read back unchanged.
\<close>

theorem data_segment_values_unmasked_witness:
  "get_data_memory_values (allocate_data (init 8 8) [(''big'', 70000), (''neg'', - 1)]) ! 0 = 70000
   \<and> read_word (allocate_data (init 8 8) [(''big'', 70000), (''neg'', - 1)]) 12 = Inr (- 1)
   \<and> \<not> (0 \<le> (- 1 :: int)) \<and> \<not> (70000 \<le> (0xFFFF :: int))
   \<and> (\<exists>m'. update_data_memory (allocate_data (init 8 8) [(''big'', 70000), (''neg'', - 1)])
               ''neg'' 131071 = Inr m'
          \<and> get_data_memory_values m' ! 1 = 131071 \<and> read_word m' 12 = Inr 131071)"
proof -
  let ?ds = "[(''big'', 70000), (''neg'', - 1 :: int)]"
  let ?m = "init 8 8"
  let ?a = "allocate_data ?m ?ds"
  have cfg: "config ?m = \<lparr> base_address = 8, size_cfg = 8, word_size = 4 \<rparr>"
    and len: "length (memory ?m) = 4"
    by (simp_all add: init_def)
  have cfga: "config ?a = \<lparr> base_address = 8, size_cfg = 8, word_size = 4 \<rparr>"
    and lena: "length (memory ?a) = 4" and dsa: "data_section ?a = ?ds"
    by (simp_all add: allocate_data_def allocate_loop_length init_def)
  have 1: "get_data_memory_values ?a ! 0 = 70000"
    using data_segment_values_unmasked [of 0 ?ds ?m] len by simp
  have 2: "read_word ?a 12 = Inr (- 1)"
    using data_segment_values_unmasked [of 1 ?ds ?m] len cfg by simp
  have 3: "\<exists>m'. update_data_memory ?a ''neg'' 131071 = Inr m'
          \<and> get_data_memory_values m' ! 1 = 131071 \<and> read_word m' 12 = Inr 131071"
    using data_segment_values_unmasked [of _ _ ?a 1 131071] lena cfga dsa by simp
  show ?thesis using 1 2 3 by simp
qed

end
